theory Spec2Isabelle
  imports Complex_Main "HOL-Library.Finite_Map"
begin

section \<open>Shared types\<close>

text \<open>
  A Go \<open>context.Context\<close> is an interface value that may be nil. \<open>context.TODO()\<close>
  returns a non-nil placeholder; every other non-nil context is identified by a number.
\<close>

datatype go_context = nil_context | context_TODO | context_value nat

text \<open>
  Go's \<open>error\<close> values. \<open>fmt.Errorf\<close> without a wrapping verb yields a message,
  \<open>fmt.Errorf\<close> with \<open>%w\<close> yields a message around the wrapped error, and the
  collaborators (client-go, the pod helper, the agent controller) return errors of their own.
\<close>

datatype error =
    Errorf string
  | ErrorfW string error
  | CollaboratorError string

type_synonym duration = int

section \<open>Package kubernetes\<close>

text \<open>
  \<open>rest.Config\<close>: only the fields the package writes are modelled individually.
  \<open>QPS\<close> is a float32 in client-go; the package only stores the constant 100 in it.
\<close>

record rest_Config =
  Host :: string
  QPS :: int
  Burst :: int

datatype clientset = Clientset rest_Config

datatype discoveryClient = DiscoveryClient rest_Config

record version_Info =
  Major :: string
  Minor :: string

record Config =
  cfg_Context :: go_context
  Kubeconfig :: string

record k8s =
  k8s_config :: rest_Config
  k8s_Interface :: clientset
  k8s_ctx :: go_context

text \<open>
  The functions of client-go and the package's own \<open>getConfigPath\<close> (which is defined
  elsewhere in the package) are parameters: a record of the answers the surroundings give.
\<close>

record kube_env =
  NewForConfig :: "rest_Config \<Rightarrow> error + clientset"
  NewDiscoveryClientForConfig :: "rest_Config \<Rightarrow> error + discoveryClient"
  ServerVersion :: "discoveryClient \<Rightarrow> error + version_Info"
  InClusterConfig :: "error + rest_Config"
  getConfigPath :: "error + string"
  BuildConfigFromFlags :: "string \<Rightarrow> string \<Rightarrow> error + rest_Config"

text \<open>
  Go compares strings byte by byte, lexicographically; a proper prefix is smaller.
\<close>

fun string_less :: "string \<Rightarrow> string \<Rightarrow> bool" where
  "string_less [] [] = False"
| "string_less [] (y # ys) = True"
| "string_less (x # xs) [] = False"
| "string_less (x # xs) (y # ys) =
     (if (of_char x :: nat) < of_char y then True
      else if (of_char y :: nat) < of_char x then False
      else string_less xs ys)"

definition semver_of :: "version_Info \<Rightarrow> string" where
  "semver_of version = ''v'' @ Major version @ ''.'' @ Minor version"

definition checkK8sVersion :: "kube_env \<Rightarrow> rest_Config \<Rightarrow> error option" where
  "checkK8sVersion env config =
     (case NewDiscoveryClientForConfig env config of
        Inl err \<Rightarrow> Some err
      | Inr discoveryClient \<Rightarrow>
          (case ServerVersion env discoveryClient of
             Inl err \<Rightarrow> Some err
           | Inr version \<Rightarrow>
               (let semver = semver_of version in
                if string_less semver ''v1.23''
                then Some (Errorf
                  (''unsupported Kubernetes version. Expected >= v1.23 but actual is '' @ semver))
                else None)))"

definition newWithContext :: "kube_env \<Rightarrow> go_context \<Rightarrow> rest_Config \<Rightarrow> error + k8s" where
  "newWithContext env c config0 =
     (let config = config0\<lparr>QPS := 100, Burst := 150\<rparr> in
      case NewForConfig env config of
        Inl err \<Rightarrow> Inl err
      | Inr client \<Rightarrow>
          (case checkK8sVersion env config of
             Some err \<Rightarrow> Inl err
           | None \<Rightarrow>
               Inr \<lparr>k8s_config = config, k8s_Interface = client,
                    k8s_ctx = (if c = nil_context then context_TODO else c)\<rparr>))"

definition NewFromConfig :: "kube_env \<Rightarrow> Config \<Rightarrow> error + k8s" where
  "NewFromConfig env c =
     (case BuildConfigFromFlags env [] (Kubeconfig c) of
        Inl err \<Rightarrow> Inl err
      | Inr config \<Rightarrow> newWithContext env (cfg_Context c) config)"

definition NewFromKubeconfig :: "kube_env \<Rightarrow> string \<Rightarrow> error + k8s" where
  "NewFromKubeconfig env kubeconfig =
     NewFromConfig env \<lparr>cfg_Context = nil_context, Kubeconfig = kubeconfig\<rparr>"

definition New :: "kube_env \<Rightarrow> go_context \<Rightarrow> error + k8s" where
  "New env c =
     (case InClusterConfig env of
        Inl err \<Rightarrow>
          (case getConfigPath env of
             Inl getConfigErr \<Rightarrow>
               Inl (ErrorfW ''error getting kubernetes config path: '' getConfigErr)
           | Inr kubeConfigPath \<Rightarrow>
               NewFromConfig env \<lparr>cfg_Context = c, Kubeconfig = kubeConfigPath\<rparr>)
      | Inr k8sConfig \<Rightarrow> newWithContext env c k8sConfig)"

definition Context :: "k8s \<Rightarrow> go_context" where
  "Context k = k8s_ctx k"

subsection \<open>Reading a reported version as numbers\<close>

text \<open>
  The threshold of the version check, read as the numbers the version strings stand for:
  a decimal reading of \<open>Major\<close> and \<open>Minor\<close>, and the order on pairs of numbers.
  These two functions are not part of the program; they say what "below v1.23" means.
\<close>

definition digit_of :: "char \<Rightarrow> nat option" where
  "digit_of ch =
     (let n = (of_char ch :: nat) in if 48 \<le> n \<and> n \<le> 57 then Some (n - 48) else None)"

fun decimal_from :: "nat \<Rightarrow> string \<Rightarrow> nat option" where
  "decimal_from acc [] = Some acc"
| "decimal_from acc (ch # rest) =
     (case digit_of ch of
        None \<Rightarrow> None
      | Some d \<Rightarrow> decimal_from (10 * acc + d) rest)"

definition decimal :: "string \<Rightarrow> nat option" where
  "decimal s = (if s = [] then None else decimal_from 0 s)"

definition version_below :: "nat \<times> nat \<Rightarrow> nat \<times> nat \<Rightarrow> bool" where
  "version_below v w = (fst v < fst w \<or> (fst v = fst w \<and> snd v < snd w))"

section \<open>Package disruptors\<close>

record PodAttributes =
  Labels :: "(string, string) fmap option"

text \<open>
  A Go map value is either nil or a (possibly empty) finite map, and \<open>reflect.DeepEqual\<close> tells
  the two apart: \<open>None\<close> is the nil map. \<open>PodAttributes{}\<close> is the zero value, whose
  \<open>Labels\<close> is nil.
\<close>

definition PodAttributes_zero :: PodAttributes where
  "PodAttributes_zero = \<lparr>Labels = None\<rparr>"

record PodSelector =
  Namespace :: string
  Select :: PodAttributes
  Exclude :: PodAttributes

record PodDisruptorOptions =
  InjectTimeout :: duration

record PodFilter =
  filter_Select :: "(string, string) fmap option"
  filter_Exclude :: "(string, string) fmap option"

text \<open>\<open>k8s.PodHelper(namespace)\<close> yields a pod helper bound to that namespace.\<close>

record podHelper =
  helper_namespace :: string

definition PodHelper :: "string \<Rightarrow> podHelper" where
  "PodHelper namespace = \<lparr>helper_namespace = namespace\<rparr>"

text \<open>
  Modelled from the spec: \<open>NewAgentController\<close> and the controller type are defined
  elsewhere in the repository. The specification's controller owns a namespace, the ordered
  targets and the injection timeout; the model keeps all five arguments the constructor
  receives, unchanged, so that what \<open>NewPodDisruptor\<close> hands over can be read off it.
\<close>

record agentController =
  ctrl_ctx :: go_context
  ctrl_helper :: podHelper
  ctrl_namespace :: string
  ctrl_targets :: "string list"
  ctrl_timeout :: duration

definition NewAgentController ::
  "go_context \<Rightarrow> podHelper \<Rightarrow> string \<Rightarrow> string list \<Rightarrow> duration \<Rightarrow> agentController" where
  "NewAgentController c helper namespace targets timeout =
     \<lparr>ctrl_ctx = c, ctrl_helper = helper, ctrl_namespace = namespace,
      ctrl_targets = targets, ctrl_timeout = timeout\<rparr>"

record podDisruptor =
  pd_ctx :: go_context
  pd_controller :: agentController

type_synonym cmd = "string list"

text \<open>
  Modelled from the spec: the structs \<open>HTTPFault\<close>, \<open>GrpcFault\<close>,
  \<open>HTTPDisruptionOptions\<close> and \<open>GrpcDisruptionOptions\<close> are defined elsewhere in the
  repository; their fields are the ones the data model of the specification lists. The error rate is a
  fraction, kept as a rational number.
\<close>

record HTTPFault =
  http_AverageDelay :: duration
  http_ErrorRate :: rat
  http_ErrorCode :: nat
  http_Exclude :: string
  http_Port :: nat

record GrpcFault =
  grpc_AverageDelay :: duration
  grpc_ErrorRate :: rat
  grpc_StatusCode :: int
  grpc_Exclude :: string
  grpc_Port :: nat

record HTTPDisruptionOptions =
  http_ProxyPort :: nat
  http_Iface :: string

record GrpcDisruptionOptions =
  grpc_ProxyPort :: nat
  grpc_Iface :: string

text \<open>
  What the surroundings of \<open>pod.go\<close> answer: the pod helper's \<open>List\<close>, the controller's
  \<open>InjectDisruptorAgent\<close> and \<open>ExecCommand\<close>, and the two command builders. At their
  call sites the builders return one value, the command; they have no error result.
\<close>

record cluster =
  helper_List :: "podHelper \<Rightarrow> go_context \<Rightarrow> PodFilter \<Rightarrow> error + string list"
  InjectDisruptorAgent :: "agentController \<Rightarrow> error option"
  ExecCommand :: "agentController \<Rightarrow> cmd \<Rightarrow> error option"
  buildHTTPFaultCmd :: "HTTPFault \<Rightarrow> duration \<Rightarrow> HTTPDisruptionOptions \<Rightarrow> cmd"
  buildGrpcFaultCmd :: "GrpcFault \<Rightarrow> duration \<Rightarrow> GrpcDisruptionOptions \<Rightarrow> cmd"

text \<open>The calls a function makes on its collaborators, in the order it makes them.\<close>

datatype call =
    Call_PodHelper string
  | Call_List podHelper PodFilter
  | Call_InjectDisruptorAgent agentController
  | Call_ExecCommand agentController cmd

definition NamespaceDefault :: string where
  "NamespaceDefault = ''default''"

definition errEmptySelector :: error where
  "errEmptySelector =
     Errorf ''namespace, select and exclude attributes in pod selector cannot all be empty''"

text \<open>
  \<open>NewPodDisruptor\<close> returns its result together with the calls it made. The variable
  \<open>namespace\<close> is read from the selector before the selector's own field is defaulted;
  the defaulted copy \<open>selector1\<close> only supplies the label maps of the filter.
\<close>

definition NewPodDisruptor ::
  "cluster \<Rightarrow> go_context \<Rightarrow> PodSelector \<Rightarrow> PodDisruptorOptions
     \<Rightarrow> (error + podDisruptor) \<times> call list" where
  "NewPodDisruptor cl c selector0 options =
     (let emptySelect = (Select selector0 = PodAttributes_zero);
          emptyExclude = (Exclude selector0 = PodAttributes_zero)
      in
      if Namespace selector0 = [] \<and> emptySelect \<and> emptyExclude
      then (Inl errEmptySelector, [])
      else
        (let namespace = Namespace selector0;
             selector1 = (if Namespace selector0 = []
                          then selector0\<lparr>Namespace := NamespaceDefault\<rparr>
                          else selector0);
             helper = PodHelper namespace;
             filter = \<lparr>filter_Select = Labels (Select selector1),
                       filter_Exclude = Labels (Exclude selector1)\<rparr>
         in
         case helper_List cl helper c filter of
           Inl err \<Rightarrow> (Inl err, [Call_PodHelper namespace, Call_List helper filter])
         | Inr targets \<Rightarrow>
             (let controller =
                    NewAgentController c helper namespace targets (InjectTimeout options)
              in
              case InjectDisruptorAgent cl controller of
                Some err \<Rightarrow>
                  (Inl err,
                   [Call_PodHelper namespace, Call_List helper filter,
                    Call_InjectDisruptorAgent controller])
              | None \<Rightarrow>
                  (Inr \<lparr>pd_ctx = c, pd_controller = controller\<rparr>,
                   [Call_PodHelper namespace, Call_List helper filter,
                    Call_InjectDisruptorAgent controller]))))"

definition InjectHTTPFaults ::
  "cluster \<Rightarrow> podDisruptor \<Rightarrow> HTTPFault \<Rightarrow> duration \<Rightarrow> HTTPDisruptionOptions
     \<Rightarrow> error option \<times> call list" where
  "InjectHTTPFaults cl d fault dur options =
     (let command = buildHTTPFaultCmd cl fault dur options;
          err = ExecCommand cl (pd_controller d) command
      in (err, [Call_ExecCommand (pd_controller d) command]))"

definition InjectGrpcFaults ::
  "cluster \<Rightarrow> podDisruptor \<Rightarrow> GrpcFault \<Rightarrow> duration \<Rightarrow> GrpcDisruptionOptions
     \<Rightarrow> error option \<times> call list" where
  "InjectGrpcFaults cl d fault dur options =
     (let command = buildGrpcFaultCmd cl fault dur options;
          err = ExecCommand cl (pd_controller d) command
      in (err, [Call_ExecCommand (pd_controller d) command]))"

section \<open>Waiting for the agent\<close>

text \<open>
  Modelled from the spec: \<open>NewAgentController\<close> and \<open>InjectDisruptorAgent\<close>, which give
  \<open>InjectTimeout\<close> its meaning, are defined elsewhere in the repository. The specification's timeout
  policy per target: a negative timeout does not wait, the target counts as injected once
  the cluster accepts the mutation; zero waits up to a fixed default; a positive timeout
  waits up to that value; a target whose agent is not running within the bound has failed.
  Time is counted in the units of \<open>time.Duration\<close>.
\<close>

datatype target_state = Pending | Injected | InjectionFailed

record agent_behaviour =
  accepted :: bool
  running_after :: "duration option"

definition waitBound :: "duration \<Rightarrow> duration \<Rightarrow> duration option" where
  "waitBound dflt timeout =
     (if timeout < 0 then None else if timeout = 0 then Some dflt else Some timeout)"

definition injectTarget ::
  "duration \<Rightarrow> duration \<Rightarrow> agent_behaviour \<Rightarrow> target_state \<times> duration" where
  "injectTarget dflt timeout b =
     (if \<not> accepted b then (InjectionFailed, 0)
      else
        (case waitBound dflt timeout of
           None \<Rightarrow> (Injected, 0)
         | Some bound \<Rightarrow>
             (case running_after b of
                None \<Rightarrow> (InjectionFailed, bound)
              | Some r \<Rightarrow> if r \<le> bound then (Injected, r) else (InjectionFailed, bound))))"

section \<open>Example surroundings\<close>

definition example_config :: rest_Config where
  "example_config = \<lparr>Host = ''https://10.0.0.1:6443'', QPS = 5, Burst = 10\<rparr>"

definition example_env :: "string \<Rightarrow> string \<Rightarrow> kube_env" where
  "example_env major minor =
     \<lparr>NewForConfig = (\<lambda>config. Inr (Clientset config)),
      NewDiscoveryClientForConfig = (\<lambda>config. Inr (DiscoveryClient config)),
      ServerVersion = (\<lambda>client. Inr \<lparr>Major = major, Minor = minor\<rparr>),
      InClusterConfig = Inl (CollaboratorError ''not running in a cluster''),
      getConfigPath = Inr ''/home/user/.kube/config'',
      BuildConfigFromFlags = (\<lambda>masterUrl path. Inr example_config)\<rparr>"

definition example_build_http :: "HTTPFault \<Rightarrow> duration \<Rightarrow> HTTPDisruptionOptions \<Rightarrow> cmd" where
  "example_build_http fault dur options = [''xk6-disruptor-agent'', ''http'']"

definition example_build_grpc :: "GrpcFault \<Rightarrow> duration \<Rightarrow> GrpcDisruptionOptions \<Rightarrow> cmd" where
  "example_build_grpc fault dur options = [''xk6-disruptor-agent'', ''grpc'']"

definition example_cluster ::
  "(error + string list) \<Rightarrow> error option \<Rightarrow> error option \<Rightarrow> cluster" where
  "example_cluster listed injected executed =
     \<lparr>helper_List = (\<lambda>helper c filter. listed),
      InjectDisruptorAgent = (\<lambda>controller. injected),
      ExecCommand = (\<lambda>controller command. executed),
      buildHTTPFaultCmd = example_build_http,
      buildGrpcFaultCmd = example_build_grpc\<rparr>"

definition example_selector :: PodSelector where
  "example_selector =
     \<lparr>Namespace = [],
      Select = \<lparr>Labels = Some (fmap_of_list [(''app'', ''checkout'')])\<rparr>,
      Exclude = PodAttributes_zero\<rparr>"

text \<open>
  A \<open>PodAttributes\<close> value that carries no label: its map is nil, or allocated without
  entries. This is not part of the program; it says what "empty attributes" means.
\<close>

definition no_labels :: "PodAttributes \<Rightarrow> bool" where
  "no_labels a = (case Labels a of None \<Rightarrow> True | Some m \<Rightarrow> m = fmempty)"

definition allocated_empty_selector :: PodSelector where
  "allocated_empty_selector =
     \<lparr>Namespace = [], Select = \<lparr>Labels = Some fmempty\<rparr>,
      Exclude = \<lparr>Labels = Some fmempty\<rparr>\<rparr>"

definition empty_selector :: PodSelector where
  "empty_selector =
     \<lparr>Namespace = [], Select = PodAttributes_zero, Exclude = PodAttributes_zero\<rparr>"

definition example_disruptor :: podDisruptor where
  "example_disruptor =
     \<lparr>pd_ctx = context_TODO,
      pd_controller =
        NewAgentController context_TODO (PodHelper ''ns1'') ''ns1''
          [''checkout-0'', ''checkout-1''] 0\<rparr>"

definition malformed_http_fault :: HTTPFault where
  "malformed_http_fault =
     \<lparr>http_AverageDelay = 0, http_ErrorRate = 2, http_ErrorCode = 500,
      http_Exclude = [], http_Port = 80\<rparr>"

definition example_http_options :: HTTPDisruptionOptions where
  "example_http_options = \<lparr>http_ProxyPort = 8080, http_Iface = ''eth0''\<rparr>"

lemmas example_defs =
  example_cluster_def example_selector_def empty_selector_def example_env_def
  example_config_def example_disruptor_def example_build_http_def example_build_grpc_def
  malformed_http_fault_def example_http_options_def
  PodAttributes_zero_def PodHelper_def NewAgentController_def NamespaceDefault_def

section \<open>Construction of the cluster client\<close>

lemma newWithContext_ctx:
  "newWithContext env c config = Inr k \<Longrightarrow> Context k \<noteq> nil_context"
  by (auto simp add: newWithContext_def Context_def Let_def
      split: sum.splits option.splits if_splits)

lemma newWithContext_config:
  "newWithContext env c config = Inr k \<Longrightarrow>
     k8s_config k = config\<lparr>QPS := 100, Burst := 150\<rparr> \<and>
     checkK8sVersion env (k8s_config k) = None"
  by (auto simp add: newWithContext_def Let_def split: sum.splits option.splits)

lemma newWithContext_nil_ctx:
  "newWithContext env nil_context config = Inr k \<Longrightarrow> Context k = context_TODO"
  by (auto simp add: newWithContext_def Context_def Let_def split: sum.splits option.splits)

text \<open>
  C5. The claim: a cluster that reports a version below v1.23 fails the version check and
  gets no client; a version at or above it passes. The check compares the text
  \<open>v<Major>.<Minor>\<close> with the text \<open>v1.23\<close> byte by byte. At the version 1.9, which is
  below 1.23 as a pair of numbers, the text \<open>v1.9\<close> is not smaller than \<open>v1.23\<close>: the
  check passes and \<open>newWithContext\<close> returns an instance.
\<close>

theorem checkK8sVersion_accepts_1_9:
  "decimal ''1'' = Some 1 \<and> decimal ''9'' = Some 9 \<and> version_below (1, 9) (1, 23)
   \<and> checkK8sVersion (example_env ''1'' ''9'') (example_config\<lparr>QPS := 100, Burst := 150\<rparr>)
       = None
   \<and> newWithContext (example_env ''1'' ''9'') nil_context example_config =
       Inr \<lparr>k8s_config = example_config\<lparr>QPS := 100, Burst := 150\<rparr>,
            k8s_Interface = Clientset (example_config\<lparr>QPS := 100, Burst := 150\<rparr>),
            k8s_ctx = context_TODO\<rparr>"
  by (simp add: decimal_def digit_of_def version_below_def checkK8sVersion_def
      newWithContext_def semver_of_def Let_def example_defs)

text \<open>
  The same comparison turns away the version 1.100, which is above the threshold.
\<close>

lemma checkK8sVersion_rejects_1_100:
  "decimal ''100'' = Some 100 \<and> \<not> version_below (1, 100) (1, 23)
   \<and> checkK8sVersion (example_env ''1'' ''100'') example_config =
       Some (Errorf ''unsupported Kubernetes version. Expected >= v1.23 but actual is v1.100'')"
  by (simp add: decimal_def digit_of_def version_below_def checkK8sVersion_def
      semver_of_def Let_def example_defs)

text \<open>
  Where the comparison of texts and the comparison of numbers agree: major version 1 and
  a minor version of exactly two digits.
\<close>

lemma string_less_two_digit_minor:
  assumes "digit_of a = Some da" and "digit_of b = Some db"
  shows "string_less (semver_of \<lparr>Major = ''1'', Minor = [a, b]\<rparr>) ''v1.23''
           \<longleftrightarrow> version_below (1, 10 * da + db) (1, 23)"
  using assms
  by (auto simp add: semver_of_def version_below_def digit_of_def Let_def split: if_splits)

text \<open>
  C9. An instance that any of the four constructors returns carries a context that is not
  nil: a nil context given at construction is replaced by the placeholder.
\<close>

theorem constructed_Context_not_nil:
  "newWithContext env c config = Inr k \<or> NewFromConfig env conf = Inr k
     \<or> NewFromKubeconfig env path = Inr k \<or> New env c = Inr k
   \<Longrightarrow> Context k \<noteq> nil_context"
  by (auto simp add: NewFromConfig_def NewFromKubeconfig_def New_def
      dest: newWithContext_ctx split: sum.splits)

theorem constructed_Context_not_nil_witness:
  "New (example_env ''1'' ''25'') nil_context =
     Inr \<lparr>k8s_config = example_config\<lparr>QPS := 100, Burst := 150\<rparr>,
          k8s_Interface = Clientset (example_config\<lparr>QPS := 100, Burst := 150\<rparr>),
          k8s_ctx = context_TODO\<rparr>
   \<and> Context \<lparr>k8s_config = example_config\<lparr>QPS := 100, Burst := 150\<rparr>,
          k8s_Interface = Clientset (example_config\<lparr>QPS := 100, Burst := 150\<rparr>),
          k8s_ctx = context_TODO\<rparr> \<noteq> nil_context"
proof -
  have made: "New (example_env ''1'' ''25'') nil_context =
     Inr \<lparr>k8s_config = example_config\<lparr>QPS := 100, Burst := 150\<rparr>,
          k8s_Interface = Clientset (example_config\<lparr>QPS := 100, Burst := 150\<rparr>),
          k8s_ctx = context_TODO\<rparr>"
    by (simp add: New_def NewFromConfig_def newWithContext_def checkK8sVersion_def
        semver_of_def Let_def example_defs)
  from made show ?thesis
    using constructed_Context_not_nil [of "example_env ''1'' ''25''" nil_context _ _ _ _]
    by blast
qed

text \<open>
  C10. An instance that any of the four constructors returns has passed the version check
  on its configuration, and that configuration has QPS 100 and Burst 150.
\<close>

theorem constructed_checked_and_rate_limited:
  "newWithContext env c config = Inr k \<or> NewFromConfig env conf = Inr k
     \<or> NewFromKubeconfig env path = Inr k \<or> New env c = Inr k
   \<Longrightarrow> checkK8sVersion env (k8s_config k) = None
       \<and> QPS (k8s_config k) = 100 \<and> Burst (k8s_config k) = 150"
  by (auto simp add: NewFromConfig_def NewFromKubeconfig_def New_def
      dest!: newWithContext_config split: sum.splits)

theorem constructed_checked_and_rate_limited_witness:
  "NewFromKubeconfig (example_env ''1'' ''25'') ''/home/user/.kube/config'' =
     Inr \<lparr>k8s_config = example_config\<lparr>QPS := 100, Burst := 150\<rparr>,
          k8s_Interface = Clientset (example_config\<lparr>QPS := 100, Burst := 150\<rparr>),
          k8s_ctx = context_TODO\<rparr>
   \<and> checkK8sVersion (example_env ''1'' ''25'') (example_config\<lparr>QPS := 100, Burst := 150\<rparr>)
       = None
   \<and> QPS (example_config\<lparr>QPS := 100, Burst := 150\<rparr>) = 100
   \<and> Burst (example_config\<lparr>QPS := 100, Burst := 150\<rparr>) = 150"
proof -
  have made: "NewFromKubeconfig (example_env ''1'' ''25'') ''/home/user/.kube/config'' =
     Inr \<lparr>k8s_config = example_config\<lparr>QPS := 100, Burst := 150\<rparr>,
          k8s_Interface = Clientset (example_config\<lparr>QPS := 100, Burst := 150\<rparr>),
          k8s_ctx = context_TODO\<rparr>"
    by (simp add: NewFromKubeconfig_def NewFromConfig_def newWithContext_def
        checkK8sVersion_def semver_of_def Let_def example_defs)
  from made show ?thesis
    using constructed_checked_and_rate_limited
      [of "example_env ''1'' ''25''" _ _ _ _ "''/home/user/.kube/config''"]
    by fastforce
qed

section \<open>Construction of the pod disruptor\<close>

text \<open>
  C1. The claim: every selector whose namespace is the empty string and whose \<open>Select\<close>
  and \<open>Exclude\<close> attributes are both empty is rejected with the error for an empty
  selector, and no call is made. The code tests emptiness by comparing each attribute with
  \<open>PodAttributes{}\<close>, whose label map is nil. At the selector with an empty namespace
  and two allocated label maps without entries, neither attribute carries a label, yet
  the comparison fails for both: no error is returned, the helper is asked for, the pods
  are listed with a filter that matches every pod, the agent is injected into each of them
  and a disruptor is returned.
\<close>

theorem NewPodDisruptor_allocated_empty_selector_accepted:
  "Namespace allocated_empty_selector = []
   \<and> no_labels (Select allocated_empty_selector)
   \<and> no_labels (Exclude allocated_empty_selector)
   \<and> NewPodDisruptor (example_cluster (Inr [''checkout-0'', ''kube-dns-0'']) None None)
        context_TODO allocated_empty_selector \<lparr>InjectTimeout = 0\<rparr> =
      (Inr \<lparr>pd_ctx = context_TODO,
            pd_controller =
              \<lparr>ctrl_ctx = context_TODO, ctrl_helper = \<lparr>helper_namespace = []\<rparr>,
               ctrl_namespace = [], ctrl_targets = [''checkout-0'', ''kube-dns-0''],
               ctrl_timeout = 0\<rparr>\<rparr>,
       [Call_PodHelper [],
        Call_List \<lparr>helper_namespace = []\<rparr>
          \<lparr>filter_Select = Some fmempty, filter_Exclude = Some fmempty\<rparr>,
        Call_InjectDisruptorAgent
          \<lparr>ctrl_ctx = context_TODO, ctrl_helper = \<lparr>helper_namespace = []\<rparr>,
           ctrl_namespace = [], ctrl_targets = [''checkout-0'', ''kube-dns-0''],
           ctrl_timeout = 0\<rparr>])"
  by (simp add: NewPodDisruptor_def Let_def no_labels_def allocated_empty_selector_def
      example_defs)

text \<open>
  For every cluster: as soon as one of the two label maps is allocated, with or without
  entries, the selector passes validation and the helper is asked for.
\<close>

lemma NewPodDisruptor_allocated_labels_pass:
  assumes "Labels (Select sel) = Some m \<or> Labels (Exclude sel) = Some m"
  shows "\<exists>rest. snd (NewPodDisruptor cl c sel opts) = Call_PodHelper (Namespace sel) # rest"
proof -
  from assms have "Select sel \<noteq> PodAttributes_zero \<or> Exclude sel \<noteq> PodAttributes_zero"
    by (auto simp add: PodAttributes_zero_def)
  then show ?thesis
    by (auto simp add: NewPodDisruptor_def Let_def split: sum.splits option.splits)
qed

text \<open>
  What the validation does reject: a selector whose namespace is the empty string and whose
  two attributes both have a nil label map. Then the error for an empty selector is
  returned and no call is made: no helper is asked for, nothing is listed, nothing is
  injected.
\<close>

lemma NewPodDisruptor_empty_selector:
  "Namespace sel = [] \<Longrightarrow> Select sel = PodAttributes_zero \<Longrightarrow>
   Exclude sel = PodAttributes_zero \<Longrightarrow>
   NewPodDisruptor cl c sel opts = (Inl errEmptySelector, [])"
  by (simp add: NewPodDisruptor_def)

lemma NewPodDisruptor_empty_selector_example:
  "Namespace empty_selector = [] \<and> Select empty_selector = PodAttributes_zero
   \<and> Exclude empty_selector = PodAttributes_zero
   \<and> NewPodDisruptor (example_cluster (Inr [''checkout-0'']) None None) context_TODO
        empty_selector \<lparr>InjectTimeout = 0\<rparr> = (Inl errEmptySelector, [])"
proof -
  have ns: "Namespace empty_selector = []"
    and sel: "Select empty_selector = PodAttributes_zero"
    and exc: "Exclude empty_selector = PodAttributes_zero"
    by (simp_all add: empty_selector_def)
  from NewPodDisruptor_empty_selector [OF ns sel exc] ns sel exc
  show ?thesis by simp
qed

text \<open>
  C2. The claim: with an empty namespace and a selector that is not empty, the pod listing
  and the agent controller use the default namespace. At the selector with an empty
  namespace and the label \<open>app = checkout\<close>, the helper is asked for the empty namespace,
  the pods are listed through that helper, and the controller is built with the empty
  namespace: the default is stored in the selector's own field only, which nothing reads
  afterwards.
\<close>

theorem NewPodDisruptor_empty_namespace_not_defaulted:
  "NewPodDisruptor (example_cluster (Inr [''checkout-0'', ''checkout-1'']) None None)
      (context_value 1) example_selector \<lparr>InjectTimeout = 0\<rparr> =
   (Inr \<lparr>pd_ctx = context_value 1,
         pd_controller =
           \<lparr>ctrl_ctx = context_value 1, ctrl_helper = \<lparr>helper_namespace = []\<rparr>,
            ctrl_namespace = [], ctrl_targets = [''checkout-0'', ''checkout-1''],
            ctrl_timeout = 0\<rparr>\<rparr>,
    [Call_PodHelper [],
     Call_List \<lparr>helper_namespace = []\<rparr>
       \<lparr>filter_Select = Some (fmap_of_list [(''app'', ''checkout'')]),
        filter_Exclude = None\<rparr>,
     Call_InjectDisruptorAgent
       \<lparr>ctrl_ctx = context_value 1, ctrl_helper = \<lparr>helper_namespace = []\<rparr>,
        ctrl_namespace = [], ctrl_targets = [''checkout-0'', ''checkout-1''],
        ctrl_timeout = 0\<rparr>])"
  by (simp add: NewPodDisruptor_def Let_def example_defs)

text \<open>
  In general: whenever the selector passes validation, the helper is asked for the
  selector's namespace as it was given, and the listing goes through that helper.
\<close>

lemma NewPodDisruptor_first_calls:
  "\<not> (Namespace sel = [] \<and> Select sel = PodAttributes_zero \<and> Exclude sel = PodAttributes_zero)
   \<Longrightarrow> \<exists>rest. snd (NewPodDisruptor cl c sel opts) =
         Call_PodHelper (Namespace sel)
         # Call_List (PodHelper (Namespace sel))
             \<lparr>filter_Select = Labels (Select sel), filter_Exclude = Labels (Exclude sel)\<rparr>
         # rest"
  by (auto simp add: NewPodDisruptor_def Let_def split: sum.splits option.splits)



text \<open>
  C7. A valid selector whose listing is empty: the empty list is handed to the controller,
  the injection is called on a controller without targets, and the outcome of
  \<open>NewPodDisruptor\<close> is the outcome of that injection alone. When the injection reports
  no error, a disruptor without targets is returned.
\<close>

theorem NewPodDisruptor_empty_listing:
  assumes "\<not> (Namespace sel = [] \<and> Select sel = PodAttributes_zero
               \<and> Exclude sel = PodAttributes_zero)"
    and "helper_List cl (PodHelper (Namespace sel)) c
           \<lparr>filter_Select = Labels (Select sel), filter_Exclude = Labels (Exclude sel)\<rparr>
           = Inr []"
  shows "ctrl_targets
           (NewAgentController c (PodHelper (Namespace sel)) (Namespace sel) []
              (InjectTimeout opts)) = []
       \<and> Call_InjectDisruptorAgent
           (NewAgentController c (PodHelper (Namespace sel)) (Namespace sel) []
              (InjectTimeout opts))
           \<in> set (snd (NewPodDisruptor cl c sel opts))
       \<and> fst (NewPodDisruptor cl c sel opts) =
           (case InjectDisruptorAgent cl
                   (NewAgentController c (PodHelper (Namespace sel)) (Namespace sel) []
                      (InjectTimeout opts)) of
              Some err \<Rightarrow> Inl err
            | None \<Rightarrow>
                Inr \<lparr>pd_ctx = c,
                     pd_controller =
                       NewAgentController c (PodHelper (Namespace sel)) (Namespace sel) []
                         (InjectTimeout opts)\<rparr>)"
  using assms
  by (auto simp add: NewPodDisruptor_def Let_def NewAgentController_def
      split: if_splits sum.splits option.splits)

theorem NewPodDisruptor_empty_listing_witness:
  "\<not> (Namespace example_selector = [] \<and> Select example_selector = PodAttributes_zero
        \<and> Exclude example_selector = PodAttributes_zero)
   \<and> helper_List (example_cluster (Inr []) None None) (PodHelper (Namespace example_selector))
        context_TODO
        \<lparr>filter_Select = Labels (Select example_selector),
         filter_Exclude = Labels (Exclude example_selector)\<rparr> = Inr []
   \<and> fst (NewPodDisruptor (example_cluster (Inr []) None None) context_TODO example_selector
            \<lparr>InjectTimeout = 0\<rparr>) =
       Inr \<lparr>pd_ctx = context_TODO,
            pd_controller = NewAgentController context_TODO (PodHelper []) [] [] 0\<rparr>
   \<and> ctrl_targets (NewAgentController context_TODO (PodHelper []) [] [] 0) = []"
proof -
  have valid: "\<not> (Namespace example_selector = [] \<and> Select example_selector = PodAttributes_zero
        \<and> Exclude example_selector = PodAttributes_zero)"
    by (simp add: example_selector_def PodAttributes_zero_def)
  have listed: "helper_List (example_cluster (Inr []) None None)
        (PodHelper (Namespace example_selector)) context_TODO
        \<lparr>filter_Select = Labels (Select example_selector),
         filter_Exclude = Labels (Exclude example_selector)\<rparr> = Inr []"
    by (simp add: example_cluster_def)
  from NewPodDisruptor_empty_listing [OF valid listed, of "\<lparr>InjectTimeout = 0\<rparr>"] valid listed
  show ?thesis
    by (simp add: example_cluster_def example_selector_def NewAgentController_def)
qed

section \<open>Fault injection through the disruptor\<close>

text \<open>
  C3. The claim: a fault specification with a duration of zero or less, or an error rate
  outside the interval from 0 to 1, is refused before any cluster call, and \<open>ExecCommand\<close>
  is not invoked on it. At a duration of 0 and an error rate of 2, \<open>InjectHTTPFaults\<close>
  invokes \<open>ExecCommand\<close> on the built command and returns its result, here no error.
\<close>

theorem InjectHTTPFaults_malformed_counterexample:
  "(0 :: duration) \<le> 0 \<and> \<not> (0 \<le> http_ErrorRate malformed_http_fault
       \<and> http_ErrorRate malformed_http_fault \<le> 1)
   \<and> InjectHTTPFaults (example_cluster (Inr []) None None) example_disruptor
        malformed_http_fault 0 example_http_options =
      (None,
       [Call_ExecCommand (pd_controller example_disruptor)
          (example_build_http malformed_http_fault 0 example_http_options)])"
  by (simp add: InjectHTTPFaults_def Let_def example_cluster_def malformed_http_fault_def)

text \<open>
  C3, as the code has it: for every fault, duration and options, whatever the duration and
  the error rate are, \<open>InjectHTTPFaults\<close> and \<open>InjectGrpcFaults\<close> make exactly one call,
  \<open>ExecCommand\<close> on the command the builder returns for these arguments. The builder
  returns a command and no error, and nothing is validated before the call.
\<close>

theorem Inject_faults_always_exec:
  "snd (InjectHTTPFaults cl d hfault dur hoptions) =
     [Call_ExecCommand (pd_controller d) (buildHTTPFaultCmd cl hfault dur hoptions)]
   \<and> snd (InjectGrpcFaults cl d gfault dur goptions) =
     [Call_ExecCommand (pd_controller d) (buildGrpcFaultCmd cl gfault dur goptions)]"
  by (simp add: InjectHTTPFaults_def InjectGrpcFaults_def Let_def)

text \<open>
  C6. What \<open>InjectHTTPFaults\<close> and \<open>InjectGrpcFaults\<close> return is exactly what
  \<open>ExecCommand\<close> returns on the command built from the arguments: no error is wrapped,
  replaced or dropped.
\<close>

theorem Inject_faults_return_exec_error:
  "fst (InjectHTTPFaults cl d hfault dur hoptions) =
     ExecCommand cl (pd_controller d) (buildHTTPFaultCmd cl hfault dur hoptions)
   \<and> fst (InjectGrpcFaults cl d gfault dur goptions) =
     ExecCommand cl (pd_controller d) (buildGrpcFaultCmd cl gfault dur goptions)"
  by (simp add: InjectHTTPFaults_def InjectGrpcFaults_def Let_def)

section \<open>The injection timeout\<close>

text \<open>
  The code hands \<open>InjectTimeout\<close> to the controller as it is given.
\<close>

lemma NewPodDisruptor_timeout_handed_over:
  "NewPodDisruptor cl c sel opts = (Inr d, calls) \<Longrightarrow>
     ctrl_timeout (pd_controller d) = InjectTimeout opts"
  by (auto simp add: NewPodDisruptor_def Let_def NewAgentController_def
      split: if_splits sum.splits option.splits)

text \<open>
  C8. The three meanings of \<open>InjectTimeout\<close>, for a target whose mutation the cluster
  accepted: a negative value does not wait, and the target counts as injected whenever the
  agent starts running, or never; zero waits at most the default bound, and the target is
  injected exactly when the agent runs within that bound; a positive value waits at most
  that value, and the target is injected exactly when the agent runs within it.
\<close>

theorem injectTarget_three_way:
  assumes "accepted b"
  shows "(timeout < 0 \<longrightarrow> injectTarget dflt timeout b = (Injected, 0))
       \<and> (timeout = 0 \<longrightarrow>
             snd (injectTarget dflt timeout b) \<le> dflt
             \<and> (fst (injectTarget dflt timeout b) = Injected
                  \<longleftrightarrow> (\<exists>r. running_after b = Some r \<and> r \<le> dflt)))
       \<and> (0 < timeout \<longrightarrow>
             snd (injectTarget dflt timeout b) \<le> timeout
             \<and> (fst (injectTarget dflt timeout b) = Injected
                  \<longleftrightarrow> (\<exists>r. running_after b = Some r \<and> r \<le> timeout)))"
  using assms
  by (auto simp add: injectTarget_def waitBound_def split: option.splits)

theorem injectTarget_three_way_witness:
  "accepted \<lparr>accepted = True, running_after = Some 10000000000\<rparr>
   \<and> injectTarget 30000000000 (-1) \<lparr>accepted = True, running_after = Some 10000000000\<rparr>
       = (Injected, 0)
   \<and> injectTarget 30000000000 0 \<lparr>accepted = True, running_after = Some 10000000000\<rparr>
       = (Injected, 10000000000)
   \<and> fst (injectTarget 30000000000 5000000000
            \<lparr>accepted = True, running_after = Some 10000000000\<rparr>) \<noteq> Injected
   \<and> snd (injectTarget 30000000000 5000000000
            \<lparr>accepted = True, running_after = Some 10000000000\<rparr>) \<le> 5000000000"
proof -
  have acc: "accepted \<lparr>accepted = True, running_after = Some 10000000000\<rparr>"
    by simp
  have neg: "injectTarget 30000000000 (-1)
      \<lparr>accepted = True, running_after = Some 10000000000\<rparr> = (Injected, 0)"
    using injectTarget_three_way [OF acc, of "-1" 30000000000] by simp
  have zero: "injectTarget 30000000000 0
      \<lparr>accepted = True, running_after = Some 10000000000\<rparr> = (Injected, 10000000000)"
    by (simp add: injectTarget_def waitBound_def)
  have pos: "fst (injectTarget 30000000000 5000000000
            \<lparr>accepted = True, running_after = Some 10000000000\<rparr>) \<noteq> Injected
       \<and> snd (injectTarget 30000000000 5000000000
            \<lparr>accepted = True, running_after = Some 10000000000\<rparr>) \<le> 5000000000"
    using injectTarget_three_way [OF acc, of 5000000000 30000000000] by simp
  from acc neg zero pos show ?thesis by simp
qed

end
